theory Spec2Isabelle
  imports Complex_Main "HOL-Library.Word"
begin

section \<open>The relay service (src/server/index.ts)\<close>

text \<open>
  The room table \<open>rooms: Map<string, { host: string; guest?: string }>\<close> is a partial map
  from room codes to rooms. Socket ids are strings; an absent \<open>guest\<close> is \<open>None\<close>.
\<close>

record room =
  host :: string
  guest :: "string option"

text \<open>What the acknowledgement callback of \<open>join-room\<close> is called with.\<close>

datatype join_response = JoinError string | JoinSuccess

text \<open>Events the server emits to one socket: \<open>io.to(target).emit(...)\<close>.\<close>

datatype server_event = GuestJoined string | PeerDisconnected

record relay =
  rooms :: "string \<rightharpoonup> room"
  memberships :: "(string \<times> string) list"
  outbox :: "(string \<times> server_event) list"

text \<open>
  JavaScript truthiness of \<open>room.guest\<close> in \<open>if (room.guest)\<close>: \<open>undefined\<close> and the
  empty string are falsy, every other string is truthy.
\<close>

fun truthy :: "string option \<Rightarrow> bool" where
  "truthy None = False"
| "truthy (Some s) = (s \<noteq> [])"

text \<open>
  The \<open>join-room\<close> handler, run for the socket \<open>sid\<close>: the reply passed to the callback
  and the relay afterwards. \<open>socket.join(roomCode)\<close> is the entry added to
  \<open>memberships\<close>; the notification of the host is the entry added to \<open>outbox\<close>.
\<close>

definition join_room :: "string \<Rightarrow> string \<Rightarrow> relay \<Rightarrow> join_response \<times> relay" where
  "join_room sid roomCode st =
     (case rooms st roomCode of
        None \<Rightarrow> (JoinError ''Room not found'', st)
      | Some r \<Rightarrow>
          if truthy (guest r) then (JoinError ''Room is full'', st)
          else (JoinSuccess,
                st\<lparr>rooms := (rooms st)(roomCode \<mapsto> r\<lparr>guest := Some sid\<rparr>),
                   memberships := memberships st @ [(sid, roomCode)],
                   outbox := outbox st @ [(host r, GuestJoined sid)]\<rparr>))"

text \<open>Join requests served one after the other, each on the relay the previous one left.\<close>

fun join_all :: "(string \<times> string) list \<Rightarrow> relay \<Rightarrow> join_response list \<times> relay" where
  "join_all [] st = ([], st)"
| "join_all ((sid, roomCode) # reqs) st =
     (let (r, st') = join_room sid roomCode st;
          (rs, st'') = join_all reqs st'
      in (r # rs, st''))"

section \<open>The client: class WebRTCManager (src/unnamed/part_000)\<close>

subsection \<open>Values exchanged with the outside\<close>

type_synonym byte = "8 word"

text \<open>
  A JavaScript number as the progress computations produce it: a quotient of two sizes,
  \<open>Infinity\<close> (a positive size divided by zero) or \<open>NaN\<close> (zero divided by zero).
  Finite values are kept as exact fractions.
\<close>

datatype js_number = Finite rat | PosInfinity | NaN

fun js_div :: "nat \<Rightarrow> nat \<Rightarrow> js_number" where
  "js_div a b =
     (if b = 0 then (if a = 0 then NaN else PosInfinity) else Finite (of_nat a / of_nat b))"

fun js_times100 :: "js_number \<Rightarrow> js_number" where
  "js_times100 (Finite q) = Finite (q * 100)"
| "js_times100 PosInfinity = PosInfinity"
| "js_times100 NaN = NaN"

text \<open>\<open>Math.min(100, x)\<close>: \<open>NaN\<close> if \<open>x\<close> is \<open>NaN\<close>.\<close>

fun js_min100 :: "js_number \<Rightarrow> js_number" where
  "js_min100 (Finite q) = Finite (min 100 q)"
| "js_min100 PosInfinity = Finite 100"
| "js_min100 NaN = NaN"

text \<open>\<open>a <= b\<close> on these numbers; every comparison with \<open>NaN\<close> is false.\<close>

fun js_le :: "js_number \<Rightarrow> js_number \<Rightarrow> bool" where
  "js_le (Finite a) (Finite b) = (a \<le> b)"
| "js_le (Finite a) PosInfinity = True"
| "js_le PosInfinity PosInfinity = True"
| "js_le _ _ = False"

datatype signal_type = Offer | Answer | IceCandidateSignal

text \<open>\<open>RTCIceCandidateInit\<close>: every member is optional; \<open>candidate\<close> defaults to the empty string.\<close>

record ice_candidate_init =
  candidate :: string
  sdpMid :: "string option"
  sdpMLineIndex :: "nat option"

text \<open>\<open>SignalData\<close>: \<open>{ type; sdp?; candidate? }\<close>.\<close>

record signal_data =
  signal_type :: signal_type
  signal_sdp :: "string option"
  signal_candidate :: "ice_candidate_init option"

datatype client_message =
    CreateRoom
  | JoinRoom string
  | Signal string signal_data

text \<open>
  A message on the data channel. A string message is kept as what \<open>JSON.parse\<close> makes of
  it: a metadata object \<open>{type: 'metadata', name, size, mime}\<close>, some other JSON value
  (whose \<open>type\<close> is not \<open>'metadata'\<close>), or a text on which the handler's \<open>try\<close> block
  throws. \<open>size\<close> is a \<open>File.size\<close>, a natural number. \<open>OtherFrame\<close> is a message that
  is neither a string nor an \<open>ArrayBuffer\<close>.
\<close>

datatype control = Metadata string nat string | OtherJson | Unparsable

datatype frame = TextFrame control | BinaryFrame "byte list" | OtherFrame

datatype ready_state = Connecting | Open | Closing | Closed

record data_channel =
  readyState :: ready_state
  bufferedAmount :: nat

text \<open>
  Everything the manager does to the outside, in the order it does it: calls of its four
  callbacks, events emitted on the socket, calls on the peer connection that took
  effect, messages handed to the data channel (each with the channel's
  \<open>bufferedAmount\<close> at the moment of the call), timers set, errors logged.
\<close>

datatype effect =
    OnStatusChange string
  | OnProgress js_number string
  | OnFileReceived "byte list" string string
  | OnRoomCreated string
  | SocketEmit client_message
  | SetRemoteDescription signal_type "string option"
  | AddIceCandidate ice_candidate_init
  | SetLocalDescription signal_type string
  | ChannelSend frame nat
  | SetTimeout nat
  | ConsoleError string

datatype 'a promise = Resolved 'a | Rejected string | Pending

subsection \<open>The manager's fields\<close>

text \<open>
  \<open>socket\<close> is \<open>None\<close> for \<open>null\<close>, otherwise the socket's \<open>connected\<close> flag.
  \<open>remoteDescription\<close> is the peer connection's \<open>remoteDescription\<close>, the only part of
  the peer connection the manager reads back.
\<close>

record manager =
  dataChannel :: "data_channel option"
  socket :: "bool option"
  roomCode :: string
  isHost :: bool
  pendingCandidates :: "ice_candidate_init list"
  remoteDescription :: "(signal_type \<times> string option) option"
  receiveBuffer :: "byte list list"
  receivedSize :: nat
  expectedSize :: nat
  expectedName :: string
  expectedType :: string

text \<open>A manager as the constructor and the field initialisers leave it.\<close>

definition newManager :: manager where
  "newManager =
     \<lparr>dataChannel = None, socket = None, roomCode = [], isHost = False,
      pendingCandidates = [], remoteDescription = None, receiveBuffer = [],
      receivedSize = 0, expectedSize = 0, expectedName = [], expectedType = []\<rparr>"

subsection \<open>Socket connection and rooms\<close>

text \<open>What the signaling server does after \<open>io(...)\<close>: the socket connects, or the 15 s timer fires first.\<close>

datatype socket_env = SocketConnects | SocketTimesOut

definition connectSocket :: "socket_env \<Rightarrow> manager \<Rightarrow> unit promise \<times> manager \<times> effect list" where
  "connectSocket env m =
     (if socket m = Some True then (Resolved (), m, [])
      else case env of
             SocketConnects \<Rightarrow> (Resolved (), m\<lparr>socket := Some True\<rparr>, [])
           | SocketTimesOut \<Rightarrow>
               (Rejected ''Socket connection timeout'', m\<lparr>socket := Some False\<rparr>,
                [ConsoleError ''[Socket] Connection timeout'', OnStatusChange ''error'']))"

text \<open>
  \<open>createRoom\<close>. The server's acknowledgement of \<open>create-room\<close> is \<open>Some code\<close>, or
  \<open>None\<close> when it never comes (the promise stays pending: there is no timer here).
\<close>

definition createRoom ::
  "socket_env \<Rightarrow> string option \<Rightarrow> manager \<Rightarrow> string promise \<times> manager \<times> effect list" where
  "createRoom env ack m =
     (if roomCode m \<noteq> [] then (Resolved (roomCode m), m, [])
      else case connectSocket env m of
             (Rejected e, m1, es) \<Rightarrow> (Rejected e, m1, es)
           | (Pending, m1, es) \<Rightarrow> (Pending, m1, es)
           | (Resolved _, m1, es) \<Rightarrow>
               (let m2 = m1\<lparr>isHost := True\<rparr> in
                case ack of
                  None \<Rightarrow> (Pending, m2, es @ [SocketEmit CreateRoom])
                | Some code \<Rightarrow>
                    (Resolved code, m2\<lparr>roomCode := code\<rparr>,
                     es @ [SocketEmit CreateRoom, OnRoomCreated code, OnStatusChange ''waiting''])))"

text \<open>
  \<open>joinRoom\<close>. After \<open>join-room\<close> is emitted either the server's acknowledgement arrives
  first, or the 10 s timer fires first. \<open>if (response.error)\<close> is JavaScript truthiness
  of the error string.
\<close>

datatype join_env = Acknowledged join_response | JoinTimesOut

fun response_error :: "join_response \<Rightarrow> string option" where
  "response_error (JoinError e) = Some e"
| "response_error JoinSuccess = None"

definition joinRoom ::
  "socket_env \<Rightarrow> join_env \<Rightarrow> string \<Rightarrow> manager \<Rightarrow> bool promise \<times> manager \<times> effect list" where
  "joinRoom env jenv code m =
     (case connectSocket env m of
        (Rejected e, m1, es) \<Rightarrow> (Rejected e, m1, es)
      | (Pending, m1, es) \<Rightarrow> (Pending, m1, es)
      | (Resolved _, m1, es) \<Rightarrow>
          (let m2 = m1\<lparr>isHost := False, roomCode := code\<rparr> in
           case jenv of
             JoinTimesOut \<Rightarrow>
               (Resolved False, m2,
                es @ [SocketEmit (JoinRoom code),
                      ConsoleError ''[Room] Join timeout - no response from server'',
                      OnStatusChange ''error''])
           | Acknowledged response \<Rightarrow>
               if truthy (response_error response)
               then (Resolved False, m2,
                     es @ [SocketEmit (JoinRoom code),
                           ConsoleError (''[Room] Join error: '' @ the (response_error response)),
                           OnStatusChange ''error''])
               else (Resolved True, m2,
                     es @ [SocketEmit (JoinRoom code), OnStatusChange ''connecting''])))"

subsection \<open>The signal handler\<close>

text \<open>
  The peer connection is the browser's. What the handler depends on is whether each
  call succeeds: \<open>setRemoteDescription\<close> and \<open>addIceCandidate\<close> may reject, and
  \<open>createAnswer\<close> followed by \<open>setLocalDescription\<close> yields the answer's SDP or rejects.
  The handler's \<open>try { ... } catch\<close> turns every rejection into a logged error that
  ends the handler.
\<close>

record peer_env =
  acceptsDescription :: "signal_type \<Rightarrow> string option \<Rightarrow> bool"
  acceptsCandidate :: "ice_candidate_init \<Rightarrow> bool"
  createsAnswer :: "string option"

text \<open>
  \<open>new RTCIceCandidate(init)\<close> throws a TypeError when \<open>sdpMid\<close> and \<open>sdpMLineIndex\<close>
  are both null.
\<close>

definition constructible :: "ice_candidate_init \<Rightarrow> bool" where
  "constructible c = (sdpMid c \<noteq> None \<or> sdpMLineIndex c \<noteq> None)"

definition addIceCandidate :: "peer_env \<Rightarrow> ice_candidate_init \<Rightarrow> bool" where
  "addIceCandidate env c = (constructible c \<and> acceptsCandidate env c)"

text \<open>
  \<open>for (const candidate of this.pendingCandidates) await addIceCandidate(...)\<close>:
  the candidates applied, and whether the loop ran to its end (\<open>False\<close>: a call threw).
\<close>

fun addPending :: "peer_env \<Rightarrow> ice_candidate_init list \<Rightarrow> effect list \<times> bool" where
  "addPending env [] = ([], True)"
| "addPending env (c # cs) =
     (if addIceCandidate env c
      then (let (es, finished) = addPending env cs in (AddIceCandidate c # es, finished))
      else ([], False))"

definition signalError :: effect where
  "signalError = ConsoleError ''[Socket] Signal handling error:''"

text \<open>The \<open>signal\<close> handler, run to its end for one signal.\<close>

definition onSignal :: "peer_env \<Rightarrow> signal_data \<Rightarrow> manager \<Rightarrow> manager \<times> effect list" where
  "onSignal env data m =
     (case signal_type data of
        Offer \<Rightarrow>
          if \<not> acceptsDescription env Offer (signal_sdp data) then (m, [signalError])
          else
            (let m1 = m\<lparr>remoteDescription := Some (Offer, signal_sdp data)\<rparr>;
                 (es, finished) = addPending env (pendingCandidates m1)
             in if \<not> finished
                then (m1, SetRemoteDescription Offer (signal_sdp data) # es @ [signalError])
                else
                  (let m2 = m1\<lparr>pendingCandidates := []\<rparr> in
                   case createsAnswer env of
                     None \<Rightarrow>
                       (m2, SetRemoteDescription Offer (signal_sdp data) # es @ [signalError])
                   | Some a \<Rightarrow>
                       (m2, SetRemoteDescription Offer (signal_sdp data) # es @
                            [SetLocalDescription Answer a,
                             SocketEmit (Signal (roomCode m2)
                               \<lparr>signal_type = Answer, signal_sdp = Some a,
                                signal_candidate = None\<rparr>)])))
      | Answer \<Rightarrow>
          if \<not> acceptsDescription env Answer (signal_sdp data) then (m, [signalError])
          else
            (let m1 = m\<lparr>remoteDescription := Some (Answer, signal_sdp data)\<rparr>;
                 (es, finished) = addPending env (pendingCandidates m1)
             in if \<not> finished
                then (m1, SetRemoteDescription Answer (signal_sdp data) # es @ [signalError])
                else (m1\<lparr>pendingCandidates := []\<rparr>,
                      SetRemoteDescription Answer (signal_sdp data) # es))
      | IceCandidateSignal \<Rightarrow>
          (case signal_candidate data of
             None \<Rightarrow> (m, [])
           | Some c \<Rightarrow>
               if remoteDescription m \<noteq> None
               then (if addIceCandidate env c then (m, [AddIceCandidate c])
                     else (m, [signalError]))
               else (m\<lparr>pendingCandidates := pendingCandidates m @ [c]\<rparr>, [])))"

text \<open>Signals handled in their order of arrival, each handler run to its end.\<close>

fun onSignals :: "peer_env \<Rightarrow> signal_data list \<Rightarrow> manager \<Rightarrow> manager \<times> effect list" where
  "onSignals env [] m = (m, [])"
| "onSignals env (d # ds) m =
     (let (m1, es1) = onSignal env d m;
          (m2, es2) = onSignals env ds m1
      in (m2, es1 @ es2))"

text \<open>The candidates applied to the peer connection, in the order of the calls.\<close>

fun applied :: "effect list \<Rightarrow> ice_candidate_init list" where
  "applied [] = []"
| "applied (AddIceCandidate c # es) = c # applied es"
| "applied (_ # es) = applied es"

subsection \<open>File transfer: sending\<close>

text \<open>A \<open>File\<close>: its name, its bytes (\<open>file.size\<close> is their number) and its MIME type.\<close>

record js_file =
  file_name :: string
  contents :: "byte list"
  file_type :: string

definition chunkSize :: nat where
  "chunkSize = 16384"

text \<open>
  What the data channel does while a file is sent, told by the offset of the chunk
  concerned: whether the channel is still open when the chunk has been read, how many
  buffered bytes the transport sends out while the chunk is being read, and how many
  during the 50 ms pause after it. \<open>metadataLength\<close> is what the metadata message adds
  to \<open>bufferedAmount\<close>.
\<close>

record transport_env =
  staysOpen :: "nat \<Rightarrow> bool"
  drainedWhileReading :: "nat \<Rightarrow> nat"
  drainedWhilePaused :: "nat \<Rightarrow> nat"
  metadataLength :: nat

text \<open>
  \<open>sendNextChunk\<close>, with \<open>offset\<close> and the channel's \<open>bufferedAmount\<close> as arguments.
  \<open>file.slice(offset, offset + chunkSize)\<close> is \<open>take chunkSize (drop offset bytes)\<close>.
\<close>

function sendNextChunk :: "transport_env \<Rightarrow> byte list \<Rightarrow> nat \<Rightarrow> nat \<Rightarrow> effect list" where
  "sendNextChunk env bytes offset buffered =
     (if offset \<ge> length bytes then [OnProgress (Finite 100) ''completed'']
      else if \<not> staysOpen env offset then []
      else
        (let slice = take chunkSize (drop offset bytes);
             atSend = buffered - drainedWhileReading env offset;
             afterSend = atSend + length slice;
             offset' = offset + chunkSize;
             progress = js_min100 (js_times100 (js_div offset' (length bytes)))
         in ChannelSend (BinaryFrame slice) atSend # OnProgress progress ''sending'' #
            (if afterSend < 1024 * 1024
             then sendNextChunk env bytes offset' afterSend
             else SetTimeout 50 #
                  sendNextChunk env bytes offset' (afterSend - drainedWhilePaused env offset))))"
  by pat_completeness auto
termination
  by (relation "measure (\<lambda>(env, bytes, offset, buffered). length bytes - offset)")
     (auto simp: chunkSize_def)

definition sendFile :: "transport_env \<Rightarrow> js_file \<Rightarrow> manager \<Rightarrow> effect list" where
  "sendFile env file m =
     (case dataChannel m of
        None \<Rightarrow> [ConsoleError ''[Transfer] Data channel not ready'']
      | Some ch \<Rightarrow>
          if readyState ch \<noteq> Open then [ConsoleError ''[Transfer] Data channel not ready'']
          else
            ChannelSend (TextFrame (Metadata (file_name file) (length (contents file))
                                      (file_type file))) (bufferedAmount ch) #
            sendNextChunk env (contents file) 0 (bufferedAmount ch + metadataLength env))"

subsection \<open>File transfer: receiving\<close>

text \<open>
  \<open>new Blob(parts, {type})\<close>: the type of the Blob is the given type with every
  character in ASCII lower case, or the empty string if a character of the given type
  lies outside U+0020..U+007E.
\<close>

definition ascii_lower :: "char \<Rightarrow> char" where
  "ascii_lower c =
     (if 65 \<le> (of_char c :: nat) \<and> (of_char c :: nat) \<le> 90
      then char_of ((of_char c :: nat) + 32) else c)"

definition blobType :: "string \<Rightarrow> string" where
  "blobType t =
     (if list_all (\<lambda>c. 32 \<le> (of_char c :: nat) \<and> (of_char c :: nat) \<le> 126) t
      then map ascii_lower t else [])"

text \<open>
  \<open>handleDataMessage\<close>. What \<open>onFileReceived\<close> is handed is the Blob, kept as its bytes
  and its type, and \<open>expectedName\<close>.
\<close>

definition handleDataMessage :: "frame \<Rightarrow> manager \<Rightarrow> manager \<times> effect list" where
  "handleDataMessage data m =
     (case data of
        TextFrame (Metadata name sz mime) \<Rightarrow>
          (m\<lparr>expectedSize := sz, expectedName := name, expectedType := mime,
             receiveBuffer := [], receivedSize := 0\<rparr>,
           [OnProgress (Finite 0) ''receiving''])
      | TextFrame OtherJson \<Rightarrow> (m, [])
      | TextFrame Unparsable \<Rightarrow> (m, [ConsoleError ''[Transfer] Metadata parse error:''])
      | BinaryFrame buf \<Rightarrow>
          (let m1 = m\<lparr>receiveBuffer := receiveBuffer m @ [buf],
                      receivedSize := receivedSize m + length buf\<rparr>;
               progress = js_min100 (js_times100 (js_div (receivedSize m1) (expectedSize m1)))
           in if receivedSize m1 \<ge> expectedSize m1
              then (m1\<lparr>receiveBuffer := []\<rparr>,
                    [OnProgress progress ''receiving'',
                     OnFileReceived (concat (receiveBuffer m1)) (blobType (expectedType m1))
                       (expectedName m1)])
              else (m1, [OnProgress progress ''receiving'']))
      | OtherFrame \<Rightarrow> (m, []))"

text \<open>The messages of the data channel handled in their order of arrival.\<close>

fun handleDataMessages :: "frame list \<Rightarrow> manager \<Rightarrow> manager \<times> effect list" where
  "handleDataMessages [] m = (m, [])"
| "handleDataMessages (d # ds) m =
     (let (m1, es1) = handleDataMessage d m;
          (m2, es2) = handleDataMessages ds m1
      in (m2, es1 @ es2))"

text \<open>Projections of a list of effects.\<close>

fun sent :: "effect list \<Rightarrow> frame list" where
  "sent [] = []"
| "sent (ChannelSend f b # es) = f # sent es"
| "sent (_ # es) = sent es"

fun files :: "effect list \<Rightarrow> (byte list \<times> string \<times> string) list" where
  "files [] = []"
| "files (OnFileReceived bs t n # es) = (bs, t, n) # files es"
| "files (_ # es) = files es"

fun progress :: "effect list \<Rightarrow> js_number list" where
  "progress [] = []"
| "progress (OnProgress p s # es) = p # progress es"
| "progress (_ # es) = progress es"

text \<open>The \<open>bufferedAmount\<close> at the moment of each binary \<open>send\<close>.\<close>

fun chunkSends :: "effect list \<Rightarrow> nat list" where
  "chunkSends [] = []"
| "chunkSends (ChannelSend (BinaryFrame bs) b # es) = b # chunkSends es"
| "chunkSends (_ # es) = chunkSends es"

fun errors :: "effect list \<Rightarrow> string list" where
  "errors [] = []"
| "errors (ConsoleError e # es) = e # errors es"
| "errors (_ # es) = errors es"

subsection \<open>Offline tokens: compressSDP and decompressSDP\<close>

text \<open>
  A JavaScript string is a sequence of 16-bit code units. The descriptor is
  \<open>{ type: string; sdp: string }\<close>.
\<close>

type_synonym code_unit = "16 word"

type_synonym js_string = "code_unit list"

record session_description =
  desc_type :: js_string
  desc_sdp :: js_string

datatype codec_error = RangeError | InvalidCharacterError | InflateError | SyntaxError

text \<open>
  What the two methods use and the repository does not contain: \<open>JSON.stringify\<close>,
  \<open>pako.deflate\<close> (of a string), \<open>pako.inflate\<close> (with \<open>{to: 'string'}\<close>) and
  \<open>JSON.parse\<close>, the last two throwing on malformed input, which is \<open>None\<close>; and
  \<open>maxArguments\<close>, the largest number of arguments the JavaScript engine accepts in one
  call: \<open>f.apply(null, array)\<close> throws a RangeError when the array is longer.
\<close>

record codec_lib =
  stringify :: "session_description \<Rightarrow> js_string"
  deflate :: "js_string \<Rightarrow> byte list"
  inflate :: "byte list \<Rightarrow> js_string option"
  parse :: "js_string \<Rightarrow> session_description option"
  maxArguments :: nat

text \<open>
  \<open>btoa\<close> and \<open>atob\<close> are the browser's, as the HTML standard defines them. The
  base64 alphabet: \<open>A\<close>-\<open>Z\<close>, \<open>a\<close>-\<open>z\<close>, \<open>0\<close>-\<open>9\<close>, \<open>+\<close>, \<open>/\<close>; 61 is \<open>=\<close>.
\<close>

definition b64_char :: "nat \<Rightarrow> code_unit" where
  "b64_char n =
     of_nat (if n < 26 then 65 + n else if n < 52 then 71 + n else if n < 62 then n - 4
             else if n = 62 then 43 else 47)"


fun base64_encode :: "byte list \<Rightarrow> js_string" where
  "base64_encode (a # b # c # rest) =
     [b64_char (unat a div 4), b64_char (unat a mod 4 * 16 + unat b div 16),
      b64_char (unat b mod 16 * 4 + unat c div 64), b64_char (unat c mod 64)] @
     base64_encode rest"
| "base64_encode [a, b] =
     [b64_char (unat a div 4), b64_char (unat a mod 4 * 16 + unat b div 16),
      b64_char (unat b mod 16 * 4), 61]"
| "base64_encode [a] = [b64_char (unat a div 4), b64_char (unat a mod 4 * 16), 61, 61]"
| "base64_encode [] = []"

text \<open>\<open>btoa\<close> throws if a code unit is above 255; otherwise it encodes the code units as bytes.\<close>

definition btoa :: "js_string \<Rightarrow> codec_error + js_string" where
  "btoa s =
     (if list_all (\<lambda>u. unat u \<le> 255) s then Inr (base64_encode (map ucast s))
      else Inl InvalidCharacterError)"





text \<open>
  \<open>compressSDP\<close>: \<open>String.fromCharCode.apply(null, Array.from(compressed))\<close> passes every
  byte as one argument; it throws if there are more bytes than the engine accepts
  arguments, and is otherwise the string whose code units are the bytes.
\<close>

definition compressSDP :: "codec_lib \<Rightarrow> session_description \<Rightarrow> codec_error + js_string" where
  "compressSDP lib data =
     (let json = stringify lib data;
          compressed = deflate lib json
      in if length compressed > maxArguments lib then Inl RangeError
         else btoa (map ucast compressed))"




section \<open>Properties of the relay service\<close>

lemma join_room_absent:
  "rooms st code = None \<Longrightarrow> join_room sid code st = (JoinError ''Room not found'', st)"
  by (simp add: join_room_def)

lemma join_room_full:
  "rooms st code = Some r \<Longrightarrow> truthy (guest r) \<Longrightarrow>
   join_room sid code st = (JoinError ''Room is full'', st)"
  by (simp add: join_room_def)

lemma join_room_vacant:
  "rooms st code = Some r \<Longrightarrow> \<not> truthy (guest r) \<Longrightarrow>
   join_room sid code st =
     (JoinSuccess,
      st\<lparr>rooms := (rooms st)(code \<mapsto> r\<lparr>guest := Some sid\<rparr>),
         memberships := memberships st @ [(sid, code)],
         outbox := outbox st @ [(host r, GuestJoined sid)]\<rparr>)"
  by (simp add: join_room_def)

lemma join_room_keeps_occupants:
  assumes "rooms st c = Some r"
  shows "\<exists>r'. rooms (snd (join_room sid code st)) c = Some r' \<and> host r' = host r \<and>
              (if truthy (guest r) then guest r' = guest r else guest r' \<in> {guest r, Some sid})"
  using assms by (auto simp: join_room_def split: option.splits)

lemma join_room_dom: "dom (rooms (snd (join_room sid code st))) = dom (rooms st)"
  by (auto simp: join_room_def split: option.splits if_splits)

text \<open>Once a room has a guest, every later join request for it is refused and changes nothing.\<close>

lemma join_all_full:
  assumes "rooms st code = Some r" "truthy (guest r)" "list_all (\<lambda>q. snd q = code) reqs"
  shows "join_all reqs st = (replicate (length reqs) (JoinError ''Room is full''), st)"
  using assms
proof (induction reqs)
  case Nil
  then show ?case by simp
next
  case (Cons q reqs)
  obtain sid c where q: "q = (sid, c)" by (cases q)
  with Cons.prems have c: "c = code" by simp
  have "join_room sid code st = (JoinError ''Room is full'', st)"
    using Cons.prems(1,2) by (rule join_room_full)
  moreover have "join_all reqs st = (replicate (length reqs) (JoinError ''Room is full''), st)"
    using Cons by simp
  ultimately show ?case by (simp add: q c)
qed

text \<open>
  Of any number of join requests for one vacant room, served one after the other, the
  first one served is the only one that succeeds; its socket stays the guest.
\<close>

lemma join_all_vacant:
  assumes "rooms st code = Some r" "\<not> truthy (guest r)" "sid \<noteq> []"
    and "list_all (\<lambda>q. snd q = code) reqs"
  shows "fst (join_all ((sid, code) # reqs) st) =
           JoinSuccess # replicate (length reqs) (JoinError ''Room is full'')"
    and "rooms (snd (join_all ((sid, code) # reqs) st)) code = Some (r\<lparr>guest := Some sid\<rparr>)"
proof -
  let ?st1 = "st\<lparr>rooms := (rooms st)(code \<mapsto> r\<lparr>guest := Some sid\<rparr>),
         memberships := memberships st @ [(sid, code)],
         outbox := outbox st @ [(host r, GuestJoined sid)]\<rparr>"
  have j: "join_room sid code st = (JoinSuccess, ?st1)"
    using assms(1,2) by (rule join_room_vacant)
  have "rooms ?st1 code = Some (r\<lparr>guest := Some sid\<rparr>)" by simp
  moreover have "truthy (guest (r\<lparr>guest := Some sid\<rparr>))" using assms(3) by simp
  ultimately have rest: "join_all reqs ?st1 = (replicate (length reqs) (JoinError ''Room is full''), ?st1)"
    using assms(4) by (rule join_all_full)
  show "fst (join_all ((sid, code) # reqs) st) =
           JoinSuccess # replicate (length reqs) (JoinError ''Room is full'')"
    by (simp add: j rest)
  show "rooms (snd (join_all ((sid, code) # reqs) st)) code = Some (r\<lparr>guest := Some sid\<rparr>)"
    by (simp add: j rest)
qed

text \<open>
  C7. A join-room request for a code that is not in the room table is answered with the
  error 'Room not found' and changes nothing; for a room that already has a guest it is
  answered with 'Room is full' and changes nothing; otherwise the caller becomes the
  room's guest, the host is sent guest-joined and the caller is answered with success.
  Of two join requests for the same vacant room the first succeeds and the second is
  answered 'Room is full', the first caller staying the guest. No request changes the
  set of rooms, the host of a room, or a guest already present.
\<close>

theorem join_room_outcomes:
  "(rooms st code = None \<longrightarrow>
      join_room sid code st = (JoinError ''Room not found'', st)) \<and>
   (\<forall>r. rooms st code = Some r \<and> truthy (guest r) \<longrightarrow>
      join_room sid code st = (JoinError ''Room is full'', st)) \<and>
   (\<forall>r. rooms st code = Some r \<and> \<not> truthy (guest r) \<longrightarrow>
      join_room sid code st =
        (JoinSuccess,
         st\<lparr>rooms := (rooms st)(code \<mapsto> r\<lparr>guest := Some sid\<rparr>),
            memberships := memberships st @ [(sid, code)],
            outbox := outbox st @ [(host r, GuestJoined sid)]\<rparr>)) \<and>
   (\<forall>r sid2. rooms st code = Some r \<and> \<not> truthy (guest r) \<and> sid \<noteq> [] \<longrightarrow>
      fst (join_all [(sid, code), (sid2, code)] st) =
        [JoinSuccess, JoinError ''Room is full''] \<and>
      rooms (snd (join_all [(sid, code), (sid2, code)] st)) code =
        Some (r\<lparr>guest := Some sid\<rparr>)) \<and>
   dom (rooms (snd (join_room sid code st))) = dom (rooms st) \<and>
   (\<forall>c r. rooms st c = Some r \<longrightarrow>
      (\<exists>r'. rooms (snd (join_room sid code st)) c = Some r' \<and> host r' = host r \<and>
            (if truthy (guest r) then guest r' = guest r else guest r' \<in> {guest r, Some sid})))"
proof (intro conjI allI impI)
  show "rooms st code = None \<Longrightarrow>
      join_room sid code st = (JoinError ''Room not found'', st)"
    by (rule join_room_absent)
  show "rooms st code = Some r \<and> truthy (guest r) \<Longrightarrow>
      join_room sid code st = (JoinError ''Room is full'', st)" for r
    by (simp add: join_room_full)
  show "rooms st code = Some r \<and> \<not> truthy (guest r) \<Longrightarrow>
      join_room sid code st =
        (JoinSuccess,
         st\<lparr>rooms := (rooms st)(code \<mapsto> r\<lparr>guest := Some sid\<rparr>),
            memberships := memberships st @ [(sid, code)],
            outbox := outbox st @ [(host r, GuestJoined sid)]\<rparr>)" for r
    by (simp add: join_room_vacant)
  show "rooms st code = Some r \<and> \<not> truthy (guest r) \<and> sid \<noteq> [] \<Longrightarrow>
      fst (join_all [(sid, code), (sid2, code)] st) =
        [JoinSuccess, JoinError ''Room is full'']" for r sid2
    using join_all_vacant(1) [of st code r sid "[(sid2, code)]"] by simp
  show "rooms st code = Some r \<and> \<not> truthy (guest r) \<and> sid \<noteq> [] \<Longrightarrow>
      rooms (snd (join_all [(sid, code), (sid2, code)] st)) code =
        Some (r\<lparr>guest := Some sid\<rparr>)" for r sid2
    using join_all_vacant(2) [of st code r sid "[(sid2, code)]"] by simp
  show "dom (rooms (snd (join_room sid code st))) = dom (rooms st)"
    by (rule join_room_dom)
  show "rooms st c = Some r \<Longrightarrow>
      \<exists>r'. rooms (snd (join_room sid code st)) c = Some r' \<and> host r' = host r \<and>
            (if truthy (guest r) then guest r' = guest r else guest r' \<in> {guest r, Some sid})" for c r
    by (rule join_room_keeps_occupants)
qed

theorem join_room_outcomes_witness:
  "join_room ''G1'' ''000000''
     \<lparr>rooms = [''482913'' \<mapsto> \<lparr>host = ''H'', guest = None\<rparr>],
      memberships = [(''H'', ''482913'')], outbox = []\<rparr> =
     (JoinError ''Room not found'',
      \<lparr>rooms = [''482913'' \<mapsto> \<lparr>host = ''H'', guest = None\<rparr>],
       memberships = [(''H'', ''482913'')], outbox = []\<rparr>) \<and>
   fst (join_all [(''G1'', ''482913''), (''G2'', ''482913'')]
     \<lparr>rooms = [''482913'' \<mapsto> \<lparr>host = ''H'', guest = None\<rparr>],
      memberships = [(''H'', ''482913'')], outbox = []\<rparr>) =
     [JoinSuccess, JoinError ''Room is full''] \<and>
   rooms (snd (join_all [(''G1'', ''482913''), (''G2'', ''482913'')]
     \<lparr>rooms = [''482913'' \<mapsto> \<lparr>host = ''H'', guest = None\<rparr>],
      memberships = [(''H'', ''482913'')], outbox = []\<rparr>)) ''482913'' =
     Some \<lparr>host = ''H'', guest = Some ''G1''\<rparr> \<and>
   outbox (snd (join_room ''G1'' ''482913''
     \<lparr>rooms = [''482913'' \<mapsto> \<lparr>host = ''H'', guest = None\<rparr>],
      memberships = [(''H'', ''482913'')], outbox = []\<rparr>)) = [(''H'', GuestJoined ''G1'')] \<and>
   fst (join_room ''G2'' ''482913''
     \<lparr>rooms = [''482913'' \<mapsto> \<lparr>host = ''H'', guest = Some ''G1''\<rparr>],
      memberships = [(''H'', ''482913''), (''G1'', ''482913'')], outbox = []\<rparr>) =
     JoinError ''Room is full''"
  using join_room_outcomes [of "\<lparr>rooms = [''482913'' \<mapsto> \<lparr>host = ''H'', guest = None\<rparr>],
                memberships = [(''H'', ''482913'')], outbox = []\<rparr>" "''000000''" "''G1''"]
    join_room_outcomes [of "\<lparr>rooms = [''482913'' \<mapsto> \<lparr>host = ''H'', guest = None\<rparr>],
                memberships = [(''H'', ''482913'')], outbox = []\<rparr>" "''482913''" "''G1''"]
    join_room_outcomes [of "\<lparr>rooms = [''482913'' \<mapsto> \<lparr>host = ''H'', guest = Some ''G1''\<rparr>],
                memberships = [(''H'', ''482913''), (''G1'', ''482913'')], outbox = []\<rparr>"
                "''482913''" "''G2''"]
  by (simp del: join_all.simps)

section \<open>Properties of room creation and joining\<close>

lemma connectSocket_connects:
  "socket m = Some True \<or> env = SocketConnects \<Longrightarrow>
   connectSocket env m = (Resolved (), m\<lparr>socket := Some True\<rparr>, [])"
  by (auto simp: connectSocket_def)

text \<open>
  C10. If a room code is already set on the manager, createRoom returns that code,
  emits nothing on the socket, calls no callback and leaves the manager as it is. On a
  manager without a room code, once the socket is connected and the server acknowledges
  with a code, createRoom marks the manager as host, stores the code and resolves with
  it; a second call then returns the same code without contacting the server.
\<close>

theorem createRoom_idempotent:
  "(roomCode m \<noteq> [] \<longrightarrow> createRoom env ack m = (Resolved (roomCode m), m, [])) \<and>
   (roomCode m = [] \<and> (socket m = Some True \<or> env = SocketConnects) \<longrightarrow>
      createRoom env (Some code) m =
        (Resolved code, m\<lparr>socket := Some True, isHost := True, roomCode := code\<rparr>,
         [SocketEmit CreateRoom, OnRoomCreated code, OnStatusChange ''waiting'']) \<and>
      (code \<noteq> [] \<longrightarrow>
         createRoom env' ack' (fst (snd (createRoom env (Some code) m))) =
           (Resolved code, fst (snd (createRoom env (Some code) m)), [])))"
proof (intro conjI impI)
  show "roomCode m \<noteq> [] \<Longrightarrow> createRoom env ack m = (Resolved (roomCode m), m, [])"
    by (simp add: createRoom_def)
next
  assume a: "roomCode m = [] \<and> (socket m = Some True \<or> env = SocketConnects)"
  then have c: "connectSocket env m = (Resolved (), m\<lparr>socket := Some True\<rparr>, [])"
    by (simp add: connectSocket_connects)
  show first: "createRoom env (Some code) m =
        (Resolved code, m\<lparr>socket := Some True, isHost := True, roomCode := code\<rparr>,
         [SocketEmit CreateRoom, OnRoomCreated code, OnStatusChange ''waiting''])"
    using a by (simp add: createRoom_def c)
  show "createRoom env' ack' (fst (snd (createRoom env (Some code) m))) =
           (Resolved code, fst (snd (createRoom env (Some code) m)), [])" if "code \<noteq> []"
    using that by (simp add: first) (simp add: createRoom_def)
qed

theorem createRoom_idempotent_witness:
  "createRoom SocketConnects (Some ''482913'') newManager =
     (Resolved ''482913'',
      newManager\<lparr>socket := Some True, isHost := True, roomCode := ''482913''\<rparr>,
      [SocketEmit CreateRoom, OnRoomCreated ''482913'', OnStatusChange ''waiting'']) \<and>
   createRoom SocketTimesOut None
     (newManager\<lparr>socket := Some True, isHost := True, roomCode := ''482913''\<rparr>) =
     (Resolved ''482913'',
      newManager\<lparr>socket := Some True, isHost := True, roomCode := ''482913''\<rparr>, [])"
  using createRoom_idempotent [of newManager SocketConnects None "''482913''" SocketTimesOut None]
    createRoom_idempotent [of "newManager\<lparr>socket := Some True, isHost := True,
      roomCode := ''482913''\<rparr>" SocketTimesOut None]
  by (simp add: newManager_def)

text \<open>
  C6, as stated, fails. The relay answers 'Room not found' for an unknown code and
  'Room is full' for an occupied room; joinRoom resolves to \<open>false\<close> for both, and to
  \<open>false\<close> again when the 10 s timer fires first.
\<close>

theorem joinRoom_failures_same_result:
  "fst (join_room ''G'' ''482913'' \<lparr>rooms = Map.empty, memberships = [], outbox = []\<rparr>) =
     JoinError ''Room not found'' \<and>
   fst (join_room ''G'' ''482913''
     \<lparr>rooms = [''482913'' \<mapsto> \<lparr>host = ''H'', guest = Some ''G0''\<rparr>],
      memberships = [], outbox = []\<rparr>) = JoinError ''Room is full'' \<and>
   fst (joinRoom SocketConnects (Acknowledged (JoinError ''Room not found'')) ''482913'' newManager) =
     Resolved False \<and>
   fst (joinRoom SocketConnects (Acknowledged (JoinError ''Room is full'')) ''482913'' newManager) =
     Resolved False \<and>
   fst (joinRoom SocketConnects JoinTimesOut ''482913'' newManager) = Resolved False"
  by (simp add: join_room_def joinRoom_def connectSocket_def newManager_def)

text \<open>
  C6, amended. Once the socket is connected, joinRoom records the code, clears isHost
  and emits join-room. It resolves to \<open>true\<close> with status 'connecting' when the server
  acknowledges success. It resolves to \<open>false\<close> with status 'error' when the server
  answers with an error and when no answer comes before the 10 s timer fires: the
  promise never stays pending, and the three failures leave the same result, the same
  manager and the same status, so that only the console log tells them apart.
\<close>

theorem joinRoom_result:
  assumes "socket m = Some True \<or> env = SocketConnects"
  shows "joinRoom env (Acknowledged JoinSuccess) code m =
           (Resolved True, m\<lparr>socket := Some True, isHost := False, roomCode := code\<rparr>,
            [SocketEmit (JoinRoom code), OnStatusChange ''connecting'']) \<and>
         joinRoom env (Acknowledged (JoinError ''Room not found'')) code m =
           (Resolved False, m\<lparr>socket := Some True, isHost := False, roomCode := code\<rparr>,
            [SocketEmit (JoinRoom code), ConsoleError ''[Room] Join error: Room not found'',
             OnStatusChange ''error'']) \<and>
         joinRoom env (Acknowledged (JoinError ''Room is full'')) code m =
           (Resolved False, m\<lparr>socket := Some True, isHost := False, roomCode := code\<rparr>,
            [SocketEmit (JoinRoom code), ConsoleError ''[Room] Join error: Room is full'',
             OnStatusChange ''error'']) \<and>
         joinRoom env JoinTimesOut code m =
           (Resolved False, m\<lparr>socket := Some True, isHost := False, roomCode := code\<rparr>,
            [SocketEmit (JoinRoom code),
             ConsoleError ''[Room] Join timeout - no response from server'',
             OnStatusChange ''error''])"
  using connectSocket_connects [OF assms] by (simp add: joinRoom_def)

theorem joinRoom_result_witness:
  "joinRoom SocketConnects (Acknowledged JoinSuccess) ''482913'' newManager =
     (Resolved True, newManager\<lparr>socket := Some True, isHost := False, roomCode := ''482913''\<rparr>,
      [SocketEmit (JoinRoom ''482913''), OnStatusChange ''connecting'']) \<and>
   fst (joinRoom SocketConnects JoinTimesOut ''482913'' newManager) = Resolved False"
  using joinRoom_result [of newManager SocketConnects "''482913''"] by simp

section \<open>Properties of the receive path\<close>

lemma handleDataMessage_metadata:
  "handleDataMessage (TextFrame (Metadata n s t)) m =
     (m\<lparr>expectedSize := s, expectedName := n, expectedType := t,
        receiveBuffer := [], receivedSize := 0\<rparr>,
      [OnProgress (Finite 0) ''receiving''])"
  by (simp add: handleDataMessage_def)

lemma handleDataMessage_incomplete:
  "receivedSize m + length buf < expectedSize m \<Longrightarrow>
   handleDataMessage (BinaryFrame buf) m =
     (m\<lparr>receiveBuffer := receiveBuffer m @ [buf], receivedSize := receivedSize m + length buf\<rparr>,
      [OnProgress (js_min100 (js_times100 (js_div (receivedSize m + length buf) (expectedSize m))))
         ''receiving''])"
  by (simp add: handleDataMessage_def Let_def)

lemma handleDataMessage_complete:
  "expectedSize m \<le> receivedSize m + length buf \<Longrightarrow>
   handleDataMessage (BinaryFrame buf) m =
     (m\<lparr>receiveBuffer := [], receivedSize := receivedSize m + length buf\<rparr>,
      [OnProgress (js_min100 (js_times100 (js_div (receivedSize m + length buf) (expectedSize m))))
         ''receiving'',
       OnFileReceived (concat (receiveBuffer m @ [buf])) (blobType (expectedType m))
         (expectedName m)])"
  by (simp add: handleDataMessage_def Let_def)

lemma handleDataMessages_append:
  "handleDataMessages (ds @ ds') m =
     (let (m1, es1) = handleDataMessages ds m;
          (m2, es2) = handleDataMessages ds' m1
      in (m2, es1 @ es2))"
  by (induction ds arbitrary: m) (auto split: prod.splits)

lemma files_append: "files (es @ es') = files es @ files es'"
  by (induction es rule: files.induct) auto

lemma receive_incomplete:
  "receivedSize m + sum_list (map length cs) < expectedSize m \<Longrightarrow>
   fst (handleDataMessages (map BinaryFrame cs) m) =
     m\<lparr>receiveBuffer := receiveBuffer m @ cs,
       receivedSize := receivedSize m + sum_list (map length cs)\<rparr> \<and>
   files (snd (handleDataMessages (map BinaryFrame cs) m)) = []"
proof (induction cs arbitrary: m)
  case Nil
  then show ?case by simp
next
  case (Cons c cs)
  let ?m1 = "m\<lparr>receiveBuffer := receiveBuffer m @ [c], receivedSize := receivedSize m + length c\<rparr>"
  from Cons.prems have "receivedSize m + length c < expectedSize m" by simp
  then have h: "handleDataMessage (BinaryFrame c) m = (?m1,
      [OnProgress (js_min100 (js_times100 (js_div (receivedSize m + length c) (expectedSize m))))
         ''receiving''])"
    by (rule handleDataMessage_incomplete)
  from Cons.prems have "receivedSize ?m1 + sum_list (map length cs) < expectedSize ?m1"
    by simp
  from Cons.IH [OF this] show ?case
    by (simp add: h case_prod_beta add.assoc del: js_div.simps)
qed

lemma receive_incomplete':
  assumes "cs = [] \<or> receivedSize m + sum_list (map length cs) < expectedSize m"
  shows "fst (handleDataMessages (map BinaryFrame cs) m) =
     m\<lparr>receiveBuffer := receiveBuffer m @ cs,
       receivedSize := receivedSize m + sum_list (map length cs)\<rparr>"
    and "files (snd (handleDataMessages (map BinaryFrame cs) m)) = []"
  using assms receive_incomplete [of m cs] by auto

lemma errors_append: "errors (es @ es') = errors es @ errors es'"
  by (induction es rule: errors.induct) auto

lemma receive_no_errors: "errors (snd (handleDataMessages (map BinaryFrame cs) m)) = []"
proof (induction cs arbitrary: m)
  case Nil
  then show ?case by simp
next
  case (Cons c cs)
  have "errors (snd (handleDataMessage (BinaryFrame c) m)) = []"
    by (simp add: handleDataMessage_def Let_def del: js_div.simps)
  with Cons.IH show ?case
    by (simp add: case_prod_beta errors_append)
qed

lemma receive_transfer:
  assumes "pre = [] \<or> sum_list (map length pre) < S"
    and "S \<le> sum_list (map length pre) + length c"
  shows "fst (handleDataMessages (TextFrame (Metadata n S t) # map BinaryFrame (pre @ [c])) m) =
           m\<lparr>expectedSize := S, expectedName := n, expectedType := t, receiveBuffer := [],
             receivedSize := sum_list (map length pre) + length c\<rparr>"
    and "files (snd (handleDataMessages
            (TextFrame (Metadata n S t) # map BinaryFrame (pre @ [c])) m)) =
           [(concat (pre @ [c]), blobType t, n)]"
    and "errors (snd (handleDataMessages
            (TextFrame (Metadata n S t) # map BinaryFrame (pre @ [c])) m)) = []"
proof -
  let ?m0 = "m\<lparr>expectedSize := S, expectedName := n, expectedType := t,
        receiveBuffer := [], receivedSize := 0\<rparr>"
  let ?m1 = "fst (handleDataMessages (map BinaryFrame pre) ?m0)"
  have pre: "pre = [] \<or> receivedSize ?m0 + sum_list (map length pre) < expectedSize ?m0"
    using assms(1) by simp
  have m1: "?m1 = ?m0\<lparr>receiveBuffer := pre, receivedSize := sum_list (map length pre)\<rparr>"
    using receive_incomplete'(1) [OF pre] by simp
  have f1: "files (snd (handleDataMessages (map BinaryFrame pre) ?m0)) = []"
    using receive_incomplete'(2) [OF pre] .
  have "expectedSize ?m1 \<le> receivedSize ?m1 + length c"
    using assms(2) by (simp add: m1)
  from handleDataMessage_complete [OF this]
  have last: "handleDataMessage (BinaryFrame c) ?m1 =
     (?m0\<lparr>receiveBuffer := [], receivedSize := sum_list (map length pre) + length c\<rparr>,
      [OnProgress (js_min100 (js_times100 (js_div (sum_list (map length pre) + length c) S)))
         ''receiving'',
       OnFileReceived (concat (pre @ [c])) (blobType t) n])"
    by (simp add: m1 del: js_div.simps)
  have whole: "handleDataMessages (TextFrame (Metadata n S t) # map BinaryFrame (pre @ [c])) m =
    (fst (handleDataMessage (BinaryFrame c) ?m1),
     OnProgress (Finite 0) ''receiving'' # snd (handleDataMessages (map BinaryFrame pre) ?m0) @
       snd (handleDataMessage (BinaryFrame c) ?m1))"
    by (simp add: handleDataMessage_metadata handleDataMessages_append case_prod_beta)
  show "fst (handleDataMessages (TextFrame (Metadata n S t) # map BinaryFrame (pre @ [c])) m) =
           m\<lparr>expectedSize := S, expectedName := n, expectedType := t, receiveBuffer := [],
             receivedSize := sum_list (map length pre) + length c\<rparr>"
    unfolding whole by (simp add: last)
  show "files (snd (handleDataMessages
            (TextFrame (Metadata n S t) # map BinaryFrame (pre @ [c])) m)) =
           [(concat (pre @ [c]), blobType t, n)]"
    unfolding whole by (simp add: last files_append f1)
  show "errors (snd (handleDataMessages
            (TextFrame (Metadata n S t) # map BinaryFrame (pre @ [c])) m)) = []"
    unfolding whole by (simp add: last errors_append receive_no_errors)
qed


text \<open>
  C9, as stated, fails. After the metadata for a 5-byte file and one 5-byte message the
  file is emitted and the receive buffer is empty, but the received byte count is still
  5 and the expected size, name and type are still those of the metadata; a further
  binary message is then emitted at once as a file of its own under the old name.
\<close>

theorem completion_keeps_count_and_metadata:
  "handleDataMessages
     [TextFrame (Metadata ''a.txt'' 5 ''text/plain''), BinaryFrame [1, 2, 3, 4, 5]] newManager =
     (newManager\<lparr>expectedSize := 5, expectedName := ''a.txt'', expectedType := ''text/plain'',
        receivedSize := 5\<rparr>,
      [OnProgress (Finite 0) ''receiving'', OnProgress (Finite 100) ''receiving'',
       OnFileReceived [1, 2, 3, 4, 5] ''text/plain'' ''a.txt'']) \<and>
   files (snd (handleDataMessage (BinaryFrame [9])
     (newManager\<lparr>expectedSize := 5, expectedName := ''a.txt'', expectedType := ''text/plain'',
        receivedSize := 5\<rparr>))) = [([9], ''text/plain'', ''a.txt'')]"
  by (simp add: handleDataMessage_def newManager_def blobType_def ascii_lower_def)

text \<open>
  C9, amended. A binary message that brings the received byte count to the expected
  size or beyond makes the receiver concatenate the buffered chunks, in arrival order,
  into the final artifact (a Blob of the expected type as \<open>Blob\<close> normalises it), emit
  it via onFileReceived, and empty the receive buffer. The received byte count and the
  expected metadata are not reset: the count keeps its new value and the expected size,
  name and type stay; no other field of the manager changes. The next metadata message
  sets all five transfer fields afresh, so the next transfer starts from a clean state.
\<close>

theorem completion_effect:
  assumes "expectedSize m \<le> receivedSize m + length buf"
  shows "fst (handleDataMessage (BinaryFrame buf) m) =
           m\<lparr>receiveBuffer := [], receivedSize := receivedSize m + length buf\<rparr> \<and>
         files (snd (handleDataMessage (BinaryFrame buf) m)) =
           [(concat (receiveBuffer m @ [buf]), blobType (expectedType m), expectedName m)] \<and>
         fst (handleDataMessage (TextFrame (Metadata n s t))
               (fst (handleDataMessage (BinaryFrame buf) m))) =
           m\<lparr>expectedSize := s, expectedName := n, expectedType := t,
             receiveBuffer := [], receivedSize := 0\<rparr>"
  by (simp add: handleDataMessage_complete [OF assms] handleDataMessage_metadata)

theorem completion_effect_witness:
  "fst (handleDataMessage (BinaryFrame [4, 5])
         (newManager\<lparr>expectedSize := 5, expectedName := ''a.txt'', expectedType := ''Text/Plain'',
            receiveBuffer := [[1, 2, 3]], receivedSize := 3\<rparr>)) =
     newManager\<lparr>expectedSize := 5, expectedName := ''a.txt'', expectedType := ''Text/Plain'',
       receiveBuffer := [], receivedSize := 5\<rparr> \<and>
   files (snd (handleDataMessage (BinaryFrame [4, 5])
         (newManager\<lparr>expectedSize := 5, expectedName := ''a.txt'', expectedType := ''Text/Plain'',
            receiveBuffer := [[1, 2, 3]], receivedSize := 3\<rparr>))) =
     [([1, 2, 3, 4, 5], ''text/plain'', ''a.txt'')]"
  using completion_effect [of "newManager\<lparr>expectedSize := 5, expectedName := ''a.txt'',
    expectedType := ''Text/Plain'', receiveBuffer := [[1, 2, 3]], receivedSize := 3\<rparr>" "[4, 5]"]
  by (simp add: newManager_def blobType_def ascii_lower_def char_of_eq_iff)

text \<open>
  C4, as stated, fails. After the metadata for a 5-byte file, a message of 8 bytes is
  appended whole: the emitted file has 8 bytes, and nothing but progress and the file
  is reported.
\<close>

theorem overrun_bytes_appended:
  "snd (handleDataMessages
     [TextFrame (Metadata ''a.txt'' 5 ''text/plain''), BinaryFrame [1, 2, 3, 4, 5, 6, 7, 8]]
     newManager) =
     [OnProgress (Finite 0) ''receiving'', OnProgress (Finite 100) ''receiving'',
      OnFileReceived [1, 2, 3, 4, 5, 6, 7, 8] ''text/plain'' ''a.txt'']"
  by (simp add: handleDataMessage_def newManager_def blobType_def ascii_lower_def)

text \<open>
  C4, amended. The receive path does not check for bytes beyond the declared size; the
  declared size only decides when the file is emitted. After a metadata message
  declaring size S, the file is emitted with the first binary message that brings the
  received bytes to S or more, and it is the concatenation of every message received
  since the metadata, that last one whole: its length is the number of bytes received,
  which is at least S and exceeds S when the last message overshoots. No error is
  reported.
\<close>

theorem overrun_not_checked:
  assumes "pre = [] \<or> sum_list (map length pre) < S"
    and "S \<le> sum_list (map length pre) + length c"
  shows "files (snd (handleDataMessages
            (TextFrame (Metadata n S t) # map BinaryFrame (pre @ [c])) m)) =
           [(concat (pre @ [c]), blobType t, n)] \<and>
         length (concat (pre @ [c])) = sum_list (map length pre) + length c \<and>
         S \<le> length (concat (pre @ [c])) \<and>
         errors (snd (handleDataMessages
            (TextFrame (Metadata n S t) # map BinaryFrame (pre @ [c])) m)) = []"
proof -
  have "length (concat (pre @ [c])) = sum_list (map length pre) + length c"
    by (simp add: length_concat)
  with assms(2) receive_transfer(2,3) [OF assms] show ?thesis by simp
qed

theorem overrun_not_checked_witness:
  "files (snd (handleDataMessages
      (TextFrame (Metadata ''a.txt'' 5 ''text/plain'') # map BinaryFrame ([[1, 2, 3]] @ [[4, 5, 6, 7]]))
      newManager)) = [([1, 2, 3, 4, 5, 6, 7], ''text/plain'', ''a.txt'')] \<and>
   (5::nat) \<le> length (concat ([[1, 2, 3]] @ [[4, 5, 6, 7::byte]]))"
  using overrun_not_checked [of "[[1, 2, 3]]" 5 "[4, 5, 6, 7]" "''a.txt''" "''text/plain''" newManager]
  by (simp add: blobType_def ascii_lower_def)

section \<open>Properties of the signal handler\<close>

lemma addPending_all:
  "list_all (addIceCandidate env) cs \<Longrightarrow> addPending env cs = (map AddIceCandidate cs, True)"
  by (induction cs) auto

lemma applied_map: "applied (map AddIceCandidate cs) = cs"
  by (induction cs) auto

lemma onSignal_candidate_queued:
  "remoteDescription m = None \<Longrightarrow>
   onSignal env \<lparr>signal_type = IceCandidateSignal, signal_sdp = s, signal_candidate = Some c\<rparr> m =
     (m\<lparr>pendingCandidates := pendingCandidates m @ [c]\<rparr>, [])"
  by (simp add: onSignal_def)

lemma onSignal_candidate_applied:
  "remoteDescription m \<noteq> None \<Longrightarrow> addIceCandidate env c \<Longrightarrow>
   onSignal env \<lparr>signal_type = IceCandidateSignal, signal_sdp = s, signal_candidate = Some c\<rparr> m =
     (m, [AddIceCandidate c])"
  by (simp add: onSignal_def)

lemma onSignals_append:
  "onSignals env (ds @ ds') m =
     (fst (onSignals env ds' (fst (onSignals env ds m))),
      snd (onSignals env ds m) @ snd (onSignals env ds' (fst (onSignals env ds m))))"
  by (induction ds arbitrary: m) (auto simp: case_prod_beta)

lemma onSignals_candidates_queued:
  "remoteDescription m = None \<Longrightarrow>
   onSignals env
     (map (\<lambda>c. \<lparr>signal_type = IceCandidateSignal, signal_sdp = None, signal_candidate = Some c\<rparr>) cs) m =
     (m\<lparr>pendingCandidates := pendingCandidates m @ cs\<rparr>, [])"
proof (induction cs arbitrary: m)
  case Nil
  then show ?case by simp
next
  case (Cons c cs)
  let ?m1 = "m\<lparr>pendingCandidates := pendingCandidates m @ [c]\<rparr>"
  have "remoteDescription ?m1 = None" using Cons.prems by simp
  from Cons.IH [OF this] show ?case
    by (simp add: onSignal_candidate_queued [OF Cons.prems])
qed

lemma onSignal_answer_drains:
  assumes "acceptsDescription env Answer sdp" "list_all (addIceCandidate env) (pendingCandidates m)"
  shows "onSignal env \<lparr>signal_type = Answer, signal_sdp = sdp, signal_candidate = c\<rparr> m =
     (m\<lparr>remoteDescription := Some (Answer, sdp), pendingCandidates := []\<rparr>,
      SetRemoteDescription Answer sdp # map AddIceCandidate (pendingCandidates m))"
  using assms by (simp add: onSignal_def addPending_all)

lemma onSignal_offer_drains:
  assumes "acceptsDescription env Offer sdp" "list_all (addIceCandidate env) (pendingCandidates m)"
    and "createsAnswer env = Some a"
  shows "onSignal env \<lparr>signal_type = Offer, signal_sdp = sdp, signal_candidate = c\<rparr> m =
     (m\<lparr>remoteDescription := Some (Offer, sdp), pendingCandidates := []\<rparr>,
      SetRemoteDescription Offer sdp # map AddIceCandidate (pendingCandidates m) @
      [SetLocalDescription Answer a,
       SocketEmit (Signal (roomCode m)
         \<lparr>signal_type = Answer, signal_sdp = Some a, signal_candidate = None\<rparr>)])"
  using assms by (simp add: onSignal_def addPending_all)

text \<open>
  When the peer connection accepts the description and every candidate, the candidates
  that arrived before the description are queued in their order of arrival, applied in
  that order right after the description, each once, and the queue is left empty.
\<close>

lemma pending_replayed_in_order:
  assumes "remoteDescription m = None" "pendingCandidates m = []"
    and "acceptsDescription env Answer sdp" "list_all (addIceCandidate env) cs"
  shows "onSignals env
     (map (\<lambda>c. \<lparr>signal_type = IceCandidateSignal, signal_sdp = None, signal_candidate = Some c\<rparr>) cs @
      [\<lparr>signal_type = Answer, signal_sdp = sdp, signal_candidate = None\<rparr>]) m =
     (m\<lparr>remoteDescription := Some (Answer, sdp), pendingCandidates := []\<rparr>,
      SetRemoteDescription Answer sdp # map AddIceCandidate cs)"
proof -
  let ?m1 = "m\<lparr>pendingCandidates := pendingCandidates m @ cs\<rparr>"
  have "list_all (addIceCandidate env) (pendingCandidates ?m1)"
    using assms(2,4) by simp
  from onSignal_answer_drains [OF assms(3) this, of None]
  show ?thesis
    using assms(2) by (simp add: onSignals_append onSignals_candidates_queued [OF assms(1)])
qed

text \<open>
  C3, on the code. Two candidates arrive before the offer; the first has neither
  \<open>sdpMid\<close> nor \<open>sdpMLineIndex\<close>, so that \<open>new RTCIceCandidate\<close> throws in the replay
  loop. The handler's \<open>catch\<close> ends it before \<open>this.pendingCandidates = []\<close>: the
  remote description is set, the queue still holds both candidates, and the second one
  has not been applied. With the failing candidate second, the first is applied again
  by the next offer.
\<close>

theorem pending_kept_after_failed_replay:
  "onSignals
     \<lparr>acceptsDescription = \<lambda>t s. True, acceptsCandidate = \<lambda>c. True,
      createsAnswer = Some ''answer-sdp''\<rparr>
     [\<lparr>signal_type = IceCandidateSignal, signal_sdp = None,
       signal_candidate = Some \<lparr>candidate = ''x'', sdpMid = None, sdpMLineIndex = None\<rparr>\<rparr>,
      \<lparr>signal_type = IceCandidateSignal, signal_sdp = None,
       signal_candidate = Some \<lparr>candidate = ''candidate:1 1 udp 2122260223 192.168.1.2 54321 typ host'',
         sdpMid = Some ''0'', sdpMLineIndex = Some 0\<rparr>\<rparr>,
      \<lparr>signal_type = Offer, signal_sdp = Some ''offer-sdp'', signal_candidate = None\<rparr>]
     newManager =
   (newManager
      \<lparr>pendingCandidates :=
         [\<lparr>candidate = ''x'', sdpMid = None, sdpMLineIndex = None\<rparr>,
          \<lparr>candidate = ''candidate:1 1 udp 2122260223 192.168.1.2 54321 typ host'',
           sdpMid = Some ''0'', sdpMLineIndex = Some 0\<rparr>],
       remoteDescription := Some (Offer, Some ''offer-sdp'')\<rparr>,
    [SetRemoteDescription Offer (Some ''offer-sdp''), signalError]) \<and>
   applied (snd (onSignals
     \<lparr>acceptsDescription = \<lambda>t s. True, acceptsCandidate = \<lambda>c. True,
      createsAnswer = Some ''answer-sdp''\<rparr>
     [\<lparr>signal_type = IceCandidateSignal, signal_sdp = None,
       signal_candidate = Some \<lparr>candidate = ''candidate:1 1 udp 2122260223 192.168.1.2 54321 typ host'',
         sdpMid = Some ''0'', sdpMLineIndex = Some 0\<rparr>\<rparr>,
      \<lparr>signal_type = IceCandidateSignal, signal_sdp = None,
       signal_candidate = Some \<lparr>candidate = ''x'', sdpMid = None, sdpMLineIndex = None\<rparr>\<rparr>,
      \<lparr>signal_type = Offer, signal_sdp = Some ''offer-sdp'', signal_candidate = None\<rparr>,
      \<lparr>signal_type = Offer, signal_sdp = Some ''offer-sdp'', signal_candidate = None\<rparr>]
     newManager)) =
     [\<lparr>candidate = ''candidate:1 1 udp 2122260223 192.168.1.2 54321 typ host'',
       sdpMid = Some ''0'', sdpMLineIndex = Some 0\<rparr>,
      \<lparr>candidate = ''candidate:1 1 udp 2122260223 192.168.1.2 54321 typ host'',
       sdpMid = Some ''0'', sdpMLineIndex = Some 0\<rparr>]"
  by (simp add: onSignal_def newManager_def addIceCandidate_def constructible_def signalError_def)

section \<open>Properties of a whole transfer\<close>

lemma sendNextChunk_done:
  "length bytes \<le> offset \<Longrightarrow>
   sendNextChunk env bytes offset b = [OnProgress (Finite 100) ''completed'']"
  by (subst sendNextChunk.simps) simp

lemma sendNextChunk_closed:
  "offset < length bytes \<Longrightarrow> \<not> staysOpen env offset \<Longrightarrow> sendNextChunk env bytes offset b = []"
  by (subst sendNextChunk.simps) simp

text \<open>One chunk: what is sent, what is reported, and where the loop goes on.\<close>

lemma sendNextChunk_step:
  assumes "offset < length bytes" "staysOpen env offset"
  shows "\<exists>pause b'.
     sendNextChunk env bytes offset b =
       ChannelSend (BinaryFrame (take chunkSize (drop offset bytes)))
         (b - drainedWhileReading env offset) #
       OnProgress (js_min100 (js_times100 (js_div (offset + chunkSize) (length bytes)))) ''sending'' #
       pause @ sendNextChunk env bytes (offset + chunkSize) b' \<and>
     (pause = [] \<or> pause = [SetTimeout 50]) \<and>
     (pause = [] \<longrightarrow> b' < 1024 * 1024)"
proof (cases "b - drainedWhileReading env offset + length (take chunkSize (drop offset bytes))
                < 1024 * 1024")
  case True
  show ?thesis
    apply (rule exI [of _ "[]"])
    apply (rule exI [of _ "b - drainedWhileReading env offset +
       length (take chunkSize (drop offset bytes))"])
    apply (subst sendNextChunk.simps)
    using assms True apply (simp add: Let_def del: sendNextChunk.simps js_div.simps)
    done
next
  case False
  show ?thesis
    apply (rule exI [of _ "[SetTimeout 50]"])
    apply (rule exI [of _ "b - drainedWhileReading env offset +
       length (take chunkSize (drop offset bytes)) - drainedWhilePaused env offset"])
    apply (subst sendNextChunk.simps)
    using assms False apply (simp add: Let_def del: sendNextChunk.simps js_div.simps)
    done
qed

lemma sent_append: "sent (es @ es') = sent es @ sent es'"
  by (induction es rule: sent.induct) auto

lemma sendNextChunk_received:
  assumes "\<forall>off. staysOpen env off" "offset < length bytes"
    and "expectedSize r = length bytes" "receivedSize r = offset"
    and "concat (receiveBuffer r) = take offset bytes"
  shows "files (snd (handleDataMessages (sent (sendNextChunk env bytes offset b)) r)) =
           [(bytes, blobType (expectedType r), expectedName r)]"
  using assms(2-)
proof (induction "length bytes - offset" arbitrary: offset b r rule: less_induct)
  case less
  let ?slice = "take chunkSize (drop offset bytes)"
  let ?off = "offset + chunkSize"
  from sendNextChunk_step [OF less.prems(1), of env b] assms(1)
  obtain pause b' where
    step: "sendNextChunk env bytes offset b =
       ChannelSend (BinaryFrame ?slice) (b - drainedWhileReading env offset) #
       OnProgress (js_min100 (js_times100 (js_div ?off (length bytes)))) ''sending'' #
       pause @ sendNextChunk env bytes ?off b'"
    and pause: "pause = [] \<or> pause = [SetTimeout 50]"
    by blast
  have sent: "sent (sendNextChunk env bytes offset b) =
      BinaryFrame ?slice # sent (sendNextChunk env bytes ?off b')"
    using pause by (auto simp: step sent_append simp del: sendNextChunk.simps js_div.simps)
  show ?case
  proof (cases "?off < length bytes")
    case True
    then have len: "length ?slice = chunkSize" by simp
    let ?r1 = "r\<lparr>receiveBuffer := receiveBuffer r @ [?slice],
                 receivedSize := receivedSize r + length ?slice\<rparr>"
    have "receivedSize r + length ?slice < expectedSize r"
      using True less.prems len by simp
    from handleDataMessage_incomplete [OF this]
    have h: "handleDataMessage (BinaryFrame ?slice) r = (?r1,
      [OnProgress (js_min100 (js_times100 (js_div (receivedSize r + length ?slice) (expectedSize r))))
         ''receiving''])" .
    have "files (snd (handleDataMessages (sent (sendNextChunk env bytes ?off b')) ?r1)) =
           [(bytes, blobType (expectedType ?r1), expectedName ?r1)]"
    proof (rule less.hyps)
      show "length bytes - ?off < length bytes - offset"
        using less.prems(1) by (simp add: chunkSize_def)
      show "?off < length bytes" by (rule True)
      show "expectedSize ?r1 = length bytes" using less.prems by simp
      show "receivedSize ?r1 = ?off" using less.prems len by simp
      show "concat (receiveBuffer ?r1) = take ?off bytes"
        using less.prems by (simp add: take_add)
    qed
    then show ?thesis
      by (simp add: sent h case_prod_beta del: sendNextChunk.simps js_div.simps)
  next
    case False
    then have slice: "?slice = drop offset bytes" by simp
    have fin: "sent (sendNextChunk env bytes ?off b') = []"
      using False by (simp add: sendNextChunk_done del: sendNextChunk.simps)
    have "expectedSize r \<le> receivedSize r + length ?slice"
      using False less.prems by (simp add: slice)
    from handleDataMessage_complete [OF this]
    have "files (snd (handleDataMessage (BinaryFrame ?slice) r)) =
       [(concat (receiveBuffer r @ [?slice]), blobType (expectedType r), expectedName r)]"
      by (simp del: js_div.simps)
    moreover have "concat (receiveBuffer r @ [?slice]) = bytes"
      using less.prems by (simp add: slice)
    ultimately show ?thesis
      by (simp add: sent fin case_prod_beta del: sendNextChunk.simps js_div.simps)
  qed
qed

text \<open>
  A file that is not empty, sent over a channel that stays open and delivered in order,
  is emitted by the receiver once, byte for byte, under its name and with its type as
  \<open>Blob\<close> normalises it, whatever the size of the file and the state of the receiver
  before.
\<close>

lemma nonempty_file_roundtrip:
  assumes "dataChannel m = Some ch" "readyState ch = Open" "\<forall>off. staysOpen env off"
    and "contents file \<noteq> []"
  shows "files (snd (handleDataMessages (sent (sendFile env file m)) r)) =
           [(contents file, blobType (file_type file), file_name file)]"
proof -
  let ?r0 = "r\<lparr>expectedSize := length (contents file), expectedName := file_name file,
        expectedType := file_type file, receiveBuffer := [], receivedSize := 0\<rparr>"
  have "files (snd (handleDataMessages
          (sent (sendNextChunk env (contents file) 0 (bufferedAmount ch + metadataLength env))) ?r0)) =
        [(contents file, blobType (expectedType ?r0), expectedName ?r0)]"
    using assms(3,4) by (intro sendNextChunk_received) simp_all
  then show ?thesis
    using assms(1,2)
    by (simp add: sendFile_def handleDataMessage_metadata case_prod_beta
          del: sendNextChunk.simps)
qed


text \<open>
  C1, on the code. For an empty file the sender sends the metadata and no chunk, and
  reports completion. The receiver looks for completion only when a binary message
  arrives: with the metadata alone it reports progress 0 and emits no file.
\<close>

theorem empty_file_not_emitted:
  "sendFile
     \<lparr>staysOpen = \<lambda>off. True, drainedWhileReading = \<lambda>off. 0, drainedWhilePaused = \<lambda>off. 0,
      metadataLength = 60\<rparr>
     \<lparr>file_name = ''empty.txt'', contents = [], file_type = ''text/plain''\<rparr>
     (newManager\<lparr>dataChannel := Some \<lparr>readyState = Open, bufferedAmount = 0\<rparr>\<rparr>) =
     [ChannelSend (TextFrame (Metadata ''empty.txt'' 0 ''text/plain'')) 0,
      OnProgress (Finite 100) ''completed''] \<and>
   handleDataMessages [TextFrame (Metadata ''empty.txt'' 0 ''text/plain'')] newManager =
     (newManager\<lparr>expectedName := ''empty.txt'', expectedType := ''text/plain''\<rparr>,
      [OnProgress (Finite 0) ''receiving'']) \<and>
   files (snd (handleDataMessages [TextFrame (Metadata ''empty.txt'' 0 ''text/plain'')] newManager)) = []"
  by (simp add: sendFile_def handleDataMessage_def newManager_def)

section \<open>Properties of the progress reports\<close>

lemma progress_append: "progress (es @ es') = progress es @ progress es'"
  by (induction es rule: progress.induct) auto

lemma ratio_mono:
  fixes n :: nat
  assumes "a \<le> b" "0 < n"
  shows "min 100 (of_nat a / of_nat n * 100) \<le> min 100 ((of_nat b / of_nat n * 100)::rat)"
proof -
  have "(of_nat a :: rat) / of_nat n \<le> of_nat b / of_nat n"
    using assms by (simp add: divide_right_mono)
  then have "(of_nat a :: rat) / of_nat n * 100 \<le> of_nat b / of_nat n * 100"
    by (rule mult_right_mono) simp
  then show ?thesis by simp
qed

lemma progress_value:
  "0 < n \<Longrightarrow> js_min100 (js_times100 (js_div k n)) = Finite (min 100 (of_nat k / of_nat n * 100))"
  by simp

text \<open>
  Every progress value of the send loop from \<open>offset\<close> on is a fraction between the
  progress at \<open>offset\<close> and 100, and the values never decrease.
\<close>

lemma progress_sendNextChunk:
  "sorted_wrt js_le (progress (sendNextChunk env bytes offset b)) \<and>
   list_all (\<lambda>p. \<exists>q. p = Finite q \<and> q \<le> 100 \<and>
                (length bytes = 0 \<or> min 100 (of_nat offset / of_nat (length bytes) * 100) \<le> q))
     (progress (sendNextChunk env bytes offset b))"
proof (induction "length bytes - offset" arbitrary: offset b rule: less_induct)
  case less
  show ?case
  proof (cases "offset < length bytes")
    case False
    then show ?thesis
      by (simp add: sendNextChunk_done del: sendNextChunk.simps)
  next
    case True
    show ?thesis
    proof (cases "staysOpen env offset")
      case False
      with True show ?thesis
        by (simp add: sendNextChunk_closed del: sendNextChunk.simps)
    next
      case stays: True
      let ?off = "offset + chunkSize"
      let ?n = "length bytes"
      from sendNextChunk_step [OF True stays, of b]
      obtain pause b' where
        step: "sendNextChunk env bytes offset b =
           ChannelSend (BinaryFrame (take chunkSize (drop offset bytes)))
             (b - drainedWhileReading env offset) #
           OnProgress (js_min100 (js_times100 (js_div ?off ?n))) ''sending'' #
           pause @ sendNextChunk env bytes ?off b'"
        and pause: "pause = [] \<or> pause = [SetTimeout 50]"
        by blast
      have n: "0 < ?n" using True by (cases bytes) simp_all
      have p: "progress (sendNextChunk env bytes offset b) =
          Finite (min 100 (of_nat ?off / of_nat ?n * 100)) #
          progress (sendNextChunk env bytes ?off b')"
        using pause n by (auto simp: step progress_append simp del: sendNextChunk.simps)
      have "length bytes - ?off < length bytes - offset"
        using True by (simp add: chunkSize_def)
      from less.hyps [OF this, of b']
      have sorted: "sorted_wrt js_le (progress (sendNextChunk env bytes ?off b'))"
        and bounds: "list_all (\<lambda>p. \<exists>q. p = Finite q \<and> q \<le> 100 \<and>
                (min 100 (of_nat ?off / of_nat ?n * 100) \<le> q))
              (progress (sendNextChunk env bytes ?off b'))"
        using n by simp_all
      have mono: "min 100 (of_nat offset / of_nat ?n * 100) \<le>
                  min 100 ((of_nat ?off / of_nat ?n * 100)::rat)"
        using n by (intro ratio_mono) simp_all
      have "list_all (js_le (Finite (min 100 (of_nat ?off / of_nat ?n * 100))))
              (progress (sendNextChunk env bytes ?off b'))"
        using bounds by (rule list.pred_mono_strong) auto
      moreover have "list_all (\<lambda>p. \<exists>q. p = Finite q \<and> q \<le> 100 \<and>
                (length bytes = 0 \<or> min 100 (of_nat offset / of_nat ?n * 100) \<le> q))
              (progress (sendNextChunk env bytes ?off b'))"
        using bounds by (rule list.pred_mono_strong) (use mono in auto)
      ultimately show ?thesis
        using sorted mono unfolding p by (simp add: list_all_iff del: sendNextChunk.simps)
    qed
  qed
qed

lemma sendNextChunk_completes:
  assumes "\<forall>off. staysOpen env off"
  shows "\<exists>es. sendNextChunk env bytes offset b = es @ [OnProgress (Finite 100) ''completed'']"
proof (induction "length bytes - offset" arbitrary: offset b rule: less_induct)
  case less
  show ?case
  proof (cases "offset < length bytes")
    case False
    then show ?thesis
      by (simp add: sendNextChunk_done del: sendNextChunk.simps)
  next
    case True
    from sendNextChunk_step [OF True, of env b] assms
    obtain pre b' where
      step: "sendNextChunk env bytes offset b = pre @ sendNextChunk env bytes (offset + chunkSize) b'"
      by (metis append_Cons)
    have "length bytes - (offset + chunkSize) < length bytes - offset"
      using True by (simp add: chunkSize_def)
    from less.hyps [OF this, of b'] obtain es where
      "sendNextChunk env bytes (offset + chunkSize) b' = es @ [OnProgress (Finite 100) ''completed'']"
      by blast
    then have "sendNextChunk env bytes offset b = (pre @ es) @ [OnProgress (Finite 100) ''completed'']"
      by (simp add: step del: sendNextChunk.simps)
    then show ?thesis by blast
  qed
qed

text \<open>
  Sending: the progress values never decrease, whatever the channel does; if the
  channel is open and stays open, the last thing the sender does is to report 100.
\<close>

lemma send_progress:
  "sorted_wrt js_le (progress (sendFile env file m))"
  "dataChannel m = Some ch \<Longrightarrow> readyState ch = Open \<Longrightarrow> \<forall>off. staysOpen env off \<Longrightarrow>
   last (sendFile env file m) = OnProgress (Finite 100) ''completed'' \<and>
   last (progress (sendFile env file m)) = Finite 100"
proof -
  show "sorted_wrt js_le (progress (sendFile env file m))"
    using progress_sendNextChunk [of env "contents file" 0]
    by (simp add: sendFile_def split: option.splits del: sendNextChunk.simps)
next
  assume ch: "dataChannel m = Some ch" "readyState ch = Open" and "\<forall>off. staysOpen env off"
  from sendNextChunk_completes [OF this(3), of "contents file" 0 "bufferedAmount ch + metadataLength env"]
  obtain es where
    "sendNextChunk env (contents file) 0 (bufferedAmount ch + metadataLength env) =
       es @ [OnProgress (Finite 100) ''completed'']"
    by blast
  then show "last (sendFile env file m) = OnProgress (Finite 100) ''completed'' \<and>
   last (progress (sendFile env file m)) = Finite 100"
    using ch by (simp add: sendFile_def progress_append del: sendNextChunk.simps)
qed

lemma handleDataMessage_binary_progress:
  "progress (snd (handleDataMessage (BinaryFrame c) m)) =
     [js_min100 (js_times100 (js_div (receivedSize m + length c) (expectedSize m)))] \<and>
   expectedSize (fst (handleDataMessage (BinaryFrame c) m)) = expectedSize m \<and>
   receivedSize (fst (handleDataMessage (BinaryFrame c) m)) = receivedSize m + length c"
  by (simp add: handleDataMessage_def Let_def del: js_div.simps)

text \<open>
  Receiving, for a declared size that is not 0: the progress values after the metadata
  never decrease, and the value reported when the received bytes equal the declared
  size is 100.
\<close>

lemma receive_progress_chunks:
  assumes "0 < expectedSize m"
  shows "sorted_wrt js_le (progress (snd (handleDataMessages (map BinaryFrame cs) m))) \<and>
     list_all (\<lambda>p. \<exists>q. p = Finite q \<and>
                 min 100 (of_nat (receivedSize m) / of_nat (expectedSize m) * 100) \<le> q)
       (progress (snd (handleDataMessages (map BinaryFrame cs) m)))"
  using assms
proof (induction cs arbitrary: m)
  case Nil
  then show ?case by simp
next
  case (Cons c cs)
  let ?m1 = "fst (handleDataMessage (BinaryFrame c) m)"
  let ?S = "expectedSize m"
  note h = handleDataMessage_binary_progress [of c m]
  have S: "0 < expectedSize ?m1" using Cons.prems h by simp
  from Cons.IH [OF S]
  have sorted: "sorted_wrt js_le (progress (snd (handleDataMessages (map BinaryFrame cs) ?m1)))"
    and bounds: "list_all (\<lambda>p. \<exists>q. p = Finite q \<and>
                 min 100 (of_nat (receivedSize m + length c) / of_nat ?S * 100) \<le> q)
       (progress (snd (handleDataMessages (map BinaryFrame cs) ?m1)))"
    using h by simp_all
  have mono: "min 100 (of_nat (receivedSize m) / of_nat ?S * 100) \<le>
              min 100 ((of_nat (receivedSize m + length c) / of_nat ?S * 100)::rat)"
    using Cons.prems by (intro ratio_mono) simp_all
  have p: "progress (snd (handleDataMessages (map BinaryFrame (c # cs)) m)) =
      Finite (min 100 (of_nat (receivedSize m + length c) / of_nat ?S * 100)) #
      progress (snd (handleDataMessages (map BinaryFrame cs) ?m1))"
    using Cons.prems h by (simp add: case_prod_beta progress_append)
  have "list_all (js_le (Finite (min 100 (of_nat (receivedSize m + length c) / of_nat ?S * 100))))
          (progress (snd (handleDataMessages (map BinaryFrame cs) ?m1)))"
    using bounds by (rule list.pred_mono_strong) auto
  moreover have "list_all (\<lambda>p. \<exists>q. p = Finite q \<and>
                 min 100 (of_nat (receivedSize m) / of_nat ?S * 100) \<le> q)
       (progress (snd (handleDataMessages (map BinaryFrame cs) ?m1)))"
    using bounds by (rule list.pred_mono_strong) (use mono in auto)
  ultimately show ?case
    using sorted mono unfolding p by (simp add: list_all_iff)
qed

lemma receive_progress:
  assumes "0 < S"
  shows "sorted_wrt js_le (progress (snd (handleDataMessages
           (TextFrame (Metadata n S t) # map BinaryFrame cs) m)))"
    and "receivedSize r + length c = expectedSize r \<Longrightarrow> 0 < expectedSize r \<Longrightarrow>
         progress (snd (handleDataMessage (BinaryFrame c) r)) = [Finite 100]"
proof -
  let ?m0 = "m\<lparr>expectedSize := S, expectedName := n, expectedType := t,
        receiveBuffer := [], receivedSize := 0\<rparr>"
  have "0 < expectedSize ?m0" using assms by simp
  from receive_progress_chunks [OF this, of cs]
  show "sorted_wrt js_le (progress (snd (handleDataMessages
           (TextFrame (Metadata n S t) # map BinaryFrame cs) m)))"
    by (auto simp: handleDataMessage_metadata case_prod_beta list_all_iff)
next
  assume "receivedSize r + length c = expectedSize r" "0 < expectedSize r"
  then show "progress (snd (handleDataMessage (BinaryFrame c) r)) = [Finite 100]"
    using handleDataMessage_binary_progress [of c r] by simp
qed


text \<open>
  C5, on the code. For an empty file the receiver has received all the declared bytes
  as soon as the metadata is handled, and the only progress it ever reports is 0.
\<close>

theorem empty_file_progress_stays_zero:
  "progress (snd (handleDataMessages
     (sent (sendFile
        \<lparr>staysOpen = \<lambda>off. True, drainedWhileReading = \<lambda>off. 0, drainedWhilePaused = \<lambda>off. 0,
         metadataLength = 60\<rparr>
        \<lparr>file_name = ''empty.txt'', contents = [], file_type = ''text/plain''\<rparr>
        (newManager\<lparr>dataChannel := Some \<lparr>readyState = Open, bufferedAmount = 0\<rparr>\<rparr>)))
     newManager)) = [Finite 0] \<and>
   receivedSize (fst (handleDataMessages
     [TextFrame (Metadata ''empty.txt'' 0 ''text/plain'')] newManager)) =
   expectedSize (fst (handleDataMessages
     [TextFrame (Metadata ''empty.txt'' 0 ''text/plain'')] newManager))"
  by (simp add: sendFile_def handleDataMessage_def newManager_def)

section \<open>Properties of the flow control\<close>

text \<open>
  Up to the first 50 ms pause, every chunk is sent while \<open>bufferedAmount\<close> is below
  1 MiB, provided it was below 1 MiB when the loop was entered.
\<close>

lemma chunks_before_first_pause:
  assumes "b < 1024 * 1024"
  shows "list_all (\<lambda>x. x < 1024 * 1024)
           (chunkSends (takeWhile (\<lambda>e. e \<noteq> SetTimeout 50) (sendNextChunk env bytes offset b)))"
  using assms
proof (induction "length bytes - offset" arbitrary: offset b rule: less_induct)
  case less
  show ?case
  proof (cases "offset < length bytes \<and> staysOpen env offset")
    case False
    then show ?thesis
      by (cases "offset < length bytes")
         (simp_all add: sendNextChunk_done sendNextChunk_closed del: sendNextChunk.simps)
  next
    case True
    from sendNextChunk_step [of offset bytes env b] True
    obtain pause b' where
      step: "sendNextChunk env bytes offset b =
         ChannelSend (BinaryFrame (take chunkSize (drop offset bytes)))
           (b - drainedWhileReading env offset) #
         OnProgress (js_min100 (js_times100 (js_div (offset + chunkSize) (length bytes)))) ''sending'' #
         pause @ sendNextChunk env bytes (offset + chunkSize) b'"
      and pause: "pause = [] \<or> pause = [SetTimeout 50]"
      and below: "pause = [] \<longrightarrow> b' < 1024 * 1024"
      by blast
    have now: "b - drainedWhileReading env offset < 1024 * 1024"
      using less.prems by simp
    from pause show ?thesis
    proof
      assume e: "pause = []"
      have "length bytes - (offset + chunkSize) < length bytes - offset"
        using True by (auto simp: chunkSize_def)
      from less.hyps [OF this, of b'] below e now show ?thesis
        by (simp add: step del: sendNextChunk.simps js_div.simps)
    next
      assume "pause = [SetTimeout 50]"
      with now show ?thesis
        by (simp add: step del: sendNextChunk.simps js_div.simps)
    qed
  qed
qed

text \<open>
  C8, on the code. A file of 1048577 bytes (65 chunks) is sent on an empty channel
  whose transport sends nothing out. After the 64th chunk \<open>bufferedAmount\<close> is
  1048636, at least 1 MiB, and the sender sets the 50 ms timer; when the timer fires it
  reads and sends the 65th chunk without looking at \<open>bufferedAmount\<close> again, which is
  still 1048636 at the moment of that send.
\<close>

theorem chunk_sent_above_watermark:
  "last (chunkSends (sendFile
     \<lparr>staysOpen = \<lambda>off. True, drainedWhileReading = \<lambda>off. 0, drainedWhilePaused = \<lambda>off. 0,
      metadataLength = 60\<rparr>
     \<lparr>file_name = ''big.bin'', contents = replicate 1048577 0,
      file_type = ''application/octet-stream''\<rparr>
     (newManager\<lparr>dataChannel := Some \<lparr>readyState = Open, bufferedAmount = 0\<rparr>\<rparr>))) = 1048636 \<and>
   (1048636::nat) \<ge> 1024 * 1024"
  by (simp add: sendFile_def newManager_def chunkSize_def Let_def)


section \<open>Properties of the offline tokens\<close>

















text \<open>
  Beyond the engine's argument limit \<open>compressSDP\<close> throws: no token is made.
\<close>

lemma compressSDP_too_long:
  "maxArguments lib < length (deflate lib (stringify lib d)) \<Longrightarrow>
   compressSDP lib d = Inl RangeError"
  by (simp add: compressSDP_def)




end
